theory Spec2Isabelle
  imports Main
begin

section \<open>What the commands talk to\<close>

text \<open>
  The two source files are cobra commands of a command-line client: \<open>objstore create\<close>,
  \<open>objstore create-patch\<close> and \<open>solution status\<close>. Each one reads its flags, may read a
  local file, hands one or two requests to the platform API and logs or prints the outcome.
  Everything a command can observe or change is made explicit: the flag set it reads, the
  collaborators it calls (a record of functions) and the world it leaves behind (the requests
  handed to the API, the log entries and the printed tables, each oldest first).
\<close>

text \<open>A Go \<open>error\<close> value, carrying the text of its \<open>Error()\<close> method.\<close>

datatype error = Err string

fun Error_text :: "error \<Rightarrow> string" where
  "Error_text (Err msg) = msg"

subsection \<open>Flags\<close>

text \<open>
  A pflag flag set of string flags: a flag that was registered has a value and remembers
  whether the command line set it. \<open>GetString\<close> of a flag that was never registered returns
  the empty string and an error; \<open>Changed\<close> of such a flag is false.
\<close>

record flag =
  flag_value :: string
  flag_changed :: bool

type_synonym flagset = "string \<rightharpoonup> flag"

definition GetString :: "flagset \<Rightarrow> string \<Rightarrow> string \<times> error option" where
  "GetString cmd name =
     (case cmd name of
        None \<Rightarrow> ([], Some (Err (''flag accessed but not defined: '' @ name)))
      | Some f \<Rightarrow> (flag_value f, None))"

definition Changed :: "flagset \<Rightarrow> string \<Rightarrow> bool" where
  "Changed cmd name = (case cmd name of None \<Rightarrow> False | Some f \<Rightarrow> flag_changed f)"

text \<open>
  \<open>Flags().String(name, value, usage)\<close> registers a flag with its default, and \<open>Set\<close> is what
  parsing the command line does for a flag it finds there: a registered flag takes the value
  and is marked as changed, also when the value is empty.
\<close>

definition flags_String :: "string \<Rightarrow> string \<Rightarrow> flagset \<Rightarrow> flagset" where
  "flags_String name dflt cmd = cmd(name \<mapsto> \<lparr>flag_value = dflt, flag_changed = False\<rparr>)"

definition flags_Set :: "string \<Rightarrow> string \<Rightarrow> flagset \<Rightarrow> flagset" where
  "flags_Set name v cmd =
     (case cmd name of
        None \<Rightarrow> cmd
      | Some f \<Rightarrow> cmd(name \<mapsto> \<lparr>flag_value = v, flag_changed = True\<rparr>))"

subsection \<open>Logging\<close>

text \<open>
  A call of the logger is recorded as it is made: the level, the message or format string,
  and the arguments after it. The verbs of the format are not expanded.
\<close>

datatype level = InfoLevel | ErrorLevel | FatalLevel

datatype arg = Str string | ErrArg error

datatype log_entry = Log level string "arg list"

subsection \<open>Requests, tables and the world\<close>

datatype http_method = GET | POST | PATCH

text \<open>
  A request as the platform API receives it: the path, the headers of \<open>api.Options\<close> (a Go
  \<open>map[string]string\<close>) and the body, which is the decoded object of type \<open>'obj\<close> for a write
  and absent for a read.
\<close>

record 'obj request =
  req_method :: http_method
  req_url :: string
  req_headers :: "string \<rightharpoonup> string"
  req_body :: "'obj option"

record StatusData =
  InstallTime :: string
  InstallMessage :: string
  SuccessfulInstall :: bool
  SolutionName :: string
  SolutionVersion :: string

record StatusItem =
  StatusData :: StatusData
  CreatedAt :: string

record ResponseBlob =
  Items :: "StatusItem list"

text \<open>\<open>output.Table\<close>, with the fields the status command fills in.\<close>

record Table =
  Headers :: "string list"
  Lines :: "string list list"
  Detail :: bool

record 'obj world =
  sent :: "'obj request list"
  logged :: "log_entry list"
  printed :: "(StatusData \<times> Table) list"

definition log_Errorf :: "string \<Rightarrow> arg list \<Rightarrow> 'obj world \<Rightarrow> 'obj world" where
  "log_Errorf fmt args w = w\<lparr>logged := logged w @ [Log ErrorLevel fmt args]\<rparr>"

definition log_Error :: "string \<Rightarrow> 'obj world \<Rightarrow> 'obj world" where
  "log_Error msg w = w\<lparr>logged := logged w @ [Log ErrorLevel msg []]\<rparr>"

definition log_Infof :: "string \<Rightarrow> arg list \<Rightarrow> 'obj world \<Rightarrow> 'obj world" where
  "log_Infof fmt args w = w\<lparr>logged := logged w @ [Log InfoLevel fmt args]\<rparr>"

section \<open>objstore create and create-patch\<close>

text \<open>
  The collaborators of the two write commands. \<open>os_Open\<close> is the file system: the bytes
  \<open>io.ReadAll\<close> yields for a path that opens, nothing for a path that does not.
  \<open>json_Unmarshal\<close> decodes bytes into the \<open>map[string]interface{}\<close> the commands forward.
  \<open>getCorrectLayerID\<close> is the helper of the package that derives a layer id from the layer type
  and the object type; it is defined elsewhere in the package, and the commands below only use
  its result, so it is a parameter. \<open>transport\<close> is the answer of the platform API to a write:
  an error or none (the commands ignore the response body).
\<close>

record 'obj objstore_env =
  os_Open :: "string \<rightharpoonup> string"
  json_Unmarshal :: "string \<Rightarrow> error + 'obj"
  getCorrectLayerID :: "string \<Rightarrow> string \<Rightarrow> string"
  transport :: "'obj request \<Rightarrow> error option"

text \<open>
  What \<open>json.Unmarshal\<close> of the Go standard library does when the target is a nil
  \<open>map[string]interface{}\<close>, as it is in both commands. \<open>parse\<close> is the JSON grammar: the
  value a text denotes, or the syntax error. A text that is no JSON is an error. An object
  fills the map, a repeated member name keeping its last value. The value \<open>null\<close> is no error:
  it leaves the map nil. A value of any other kind is an error (an \<open>UnmarshalTypeError\<close>).
  Numbers are kept as their literals and member values as JSON values.
\<close>

datatype json =
  JNull
  | JBool bool
  | JNumber string
  | JString string
  | JArray "json list"
  | JObject "(string \<times> json) list"

fun is_object :: "json \<Rightarrow> bool" where
  "is_object (JObject members) = True"
| "is_object v = False"

fun json_kind :: "json \<Rightarrow> string" where
  "json_kind JNull = ''null''"
| "json_kind (JBool b) = ''bool''"
| "json_kind (JNumber n) = ''number''"
| "json_kind (JString s) = ''string''"
| "json_kind (JArray vs) = ''array''"
| "json_kind (JObject members) = ''object''"

definition Unmarshal_into_map ::
  "(string \<Rightarrow> error + json) \<Rightarrow> string \<Rightarrow> error + (string \<rightharpoonup> json) option" where
  "Unmarshal_into_map parse bytes =
     (case parse bytes of
        Inl err \<Rightarrow> Inl err
      | Inr v \<Rightarrow>
          (case v of
             JNull \<Rightarrow> Inr None
           | JObject members \<Rightarrow> Inr (Some (map_of (rev members)))
           | _ \<Rightarrow>
               Inl (Err (''json: cannot unmarshal '' @ json_kind v
                          @ '' into Go value of type map[string]interface {}''))))"

text \<open>The flags \<open>getCreateObjectCmd\<close> and \<open>getCreatePatchObjectCmd\<close> register.\<close>

definition getCreateObjectCmd :: flagset where
  "getCreateObjectCmd =
     flags_String ''layer-id'' []
       (flags_String ''layer-type'' []
         (flags_String ''object-file'' []
           (flags_String ''type'' [] Map.empty)))"

definition getCreatePatchObjectCmd :: flagset where
  "getCreatePatchObjectCmd =
     flags_String ''target-layer-type'' []
       (flags_String ''object-file'' []
         (flags_String ''parent-object-id'' []
           (flags_String ''type'' [] Map.empty)))"

definition getObjStoreObjectUrl :: string where
  "getObjStoreObjectUrl = ''objstore/v1beta/objects''"

definition api_JSONPost ::
  "'obj objstore_env \<Rightarrow> string \<Rightarrow> 'obj \<Rightarrow> (string \<rightharpoonup> string) \<Rightarrow> 'obj world
    \<Rightarrow> error option \<times> 'obj world" where
  "api_JSONPost e path body hdrs w =
     (let r = \<lparr>req_method = POST, req_url = path, req_headers = hdrs, req_body = Some body\<rparr>
      in (transport e r, w\<lparr>sent := sent w @ [r]\<rparr>))"

definition api_JSONPatch ::
  "'obj objstore_env \<Rightarrow> string \<Rightarrow> 'obj \<Rightarrow> (string \<rightharpoonup> string) \<Rightarrow> 'obj world
    \<Rightarrow> error option \<times> 'obj world" where
  "api_JSONPatch e path body hdrs w =
     (let r = \<lparr>req_method = PATCH, req_url = path, req_headers = hdrs, req_body = Some body\<rparr>
      in (transport e r, w\<lparr>sent := sent w @ [r]\<rparr>))"

text \<open>The tail of \<open>insertObject\<close>, from the headers on, once the layer id is settled.\<close>

definition insertObject_post ::
  "'obj objstore_env \<Rightarrow> string \<Rightarrow> string \<Rightarrow> string \<Rightarrow> 'obj \<Rightarrow> 'obj world \<Rightarrow> 'obj world" where
  "insertObject_post e objType layerType layerID objectStruct w =
     (let headers = [''layer-type'' \<mapsto> layerType, ''layer-id'' \<mapsto> layerID]
      in case api_JSONPost e (getObjStoreObjectUrl @ ''/'' @ objType) objectStruct headers w of
           (Some err, w') \<Rightarrow>
             log_Errorf ''objstore command failed: %v'' [Str (Error_text err)] w'
         | (None, w') \<Rightarrow>
             log_Infof ''Successfully created %s object'' [Str objType] w')"

definition insertObject :: "'obj objstore_env \<Rightarrow> flagset \<Rightarrow> 'obj world \<Rightarrow> 'obj world" where
  "insertObject e cmd w =
     (let objType = fst (GetString cmd ''type'');
          objJsonFilePath = fst (GetString cmd ''object-file'')
      in case os_Open e objJsonFilePath of
           None \<Rightarrow>
             log_Errorf ''Can't find the object definition file named %s''
               [Str objJsonFilePath] w
         | Some objectBytes \<Rightarrow>
             (case json_Unmarshal e objectBytes of
                Inl err \<Rightarrow>
                  log_Errorf ''Can't generate a %s object from the %s file. Make sure the object definition has all the required field and is valid according to the type definition.''
                    [] w
              | Inr objectStruct \<Rightarrow>
                  (let layerType = fst (GetString cmd ''layer-type'');
                       layerID = getCorrectLayerID e layerType objType
                   in if layerID = []
                      then if \<not> Changed cmd ''layer-id''
                           then log_Error ''Unable to set layer-id flag from given context. Please specify a unique layer-id value with the --layer-id flag'' w
                           else (case GetString cmd ''layer-id'' of
                                   (layerID', Some err) \<Rightarrow>
                                     log_Errorf ''error trying to get %q flag value: %w''
                                       [Str ''layer-id'', ErrArg err] w
                                 | (layerID', None) \<Rightarrow>
                                     insertObject_post e objType layerType layerID' objectStruct w)
                      else insertObject_post e objType layerType layerID objectStruct w)))"

definition insertPatchObject :: "'obj objstore_env \<Rightarrow> flagset \<Rightarrow> 'obj world \<Rightarrow> 'obj world" where
  "insertPatchObject e cmd w =
     (let objType = fst (GetString cmd ''type'');
          parentObjId = fst (GetString cmd ''parent-object-id'');
          objJsonFilePath = fst (GetString cmd ''object-file'')
      in case os_Open e objJsonFilePath of
           None \<Rightarrow>
             log_Errorf ''Can't find the object definition file named %s''
               [Str objJsonFilePath] w
         | Some objectBytes \<Rightarrow>
             (case json_Unmarshal e objectBytes of
                Inl err \<Rightarrow>
                  log_Errorf ''Can't generate a %s object from the %s file. Make sure the object definition has all the required fields and is valid according to the type definition.''
                    [] w
              | Inr objectStruct \<Rightarrow>
                  (let layerType = fst (GetString cmd ''target-layer-type'');
                       layerID = getCorrectLayerID e layerType objType;
                       headers = [''layer-type'' \<mapsto> layerType, ''layer-id'' \<mapsto> layerID]
                   in case api_JSONPatch e (getObjStoreObjectUrl @ ''/'' @ objType @ ''/'' @ parentObjId)
                             objectStruct headers w of
                        (Some err, w') \<Rightarrow>
                          log_Errorf ''Creating a patched object command failed: %v''
                            [Str (Error_text err)] w'
                      | (None, w') \<Rightarrow>
                          log_Infof ''Successfully created patched %s object at the %s layer''
                            [Str objType, Str layerType] w')))"

section \<open>solution status\<close>

subsection \<open>Formatting and escaping from the Go standard library\<close>

text \<open>
  \<open>fmt.Sprintf\<close>, for the formats of the status command: the only verb in them is \<open>%s\<close>,
  with string arguments, which copies the argument's bytes; every other byte of the format is
  copied as it is. A \<open>%s\<close> with no argument left prints \<open>%!s(MISSING)\<close>. Every call
  below passes exactly as many arguments as its format has verbs.
\<close>

fun Sprintf :: "string \<Rightarrow> string list \<Rightarrow> string" where
  "Sprintf [] args = []"
| "Sprintf [c] args = [c]"
| "Sprintf (c # d # fmt) args =
     (if c = CHR ''%'' \<and> d = CHR ''s''
      then (case args of
              x # rest \<Rightarrow> x @ Sprintf fmt rest
            | [] \<Rightarrow> ''%!s(MISSING)'' @ Sprintf fmt [])
      else c # Sprintf (d # fmt) args)"

text \<open>\<open>fmt.Sprintf("%v", b)\<close> for a boolean \<open>b\<close>.\<close>

definition Sprintf_v_bool :: "bool \<Rightarrow> string" where
  "Sprintf_v_bool b = (if b then ''true'' else ''false'')"

text \<open>
  \<open>url.QueryEscape\<close>: letters, digits and the marks \<open>- _ . ~\<close> stay, a space becomes \<open>+\<close>,
  every other byte becomes \<open>%\<close> and its two upper-case hexadecimal digits.
\<close>

definition upperhex :: string where
  "upperhex = ''0123456789ABCDEF''"

definition shouldEscape :: "char \<Rightarrow> bool" where
  "shouldEscape c =
     (let n = (of_char c :: nat)
      in if (of_char (CHR ''a'') \<le> n \<and> n \<le> of_char (CHR ''z''))
            \<or> (of_char (CHR ''A'') \<le> n \<and> n \<le> of_char (CHR ''Z''))
            \<or> (of_char (CHR ''0'') \<le> n \<and> n \<le> of_char (CHR ''9''))
         then False
         else if c = CHR ''-'' \<or> c = CHR ''_'' \<or> c = CHR ''.'' \<or> c = CHR ''~''
         then False
         else True)"

fun QueryEscape :: "string \<Rightarrow> string" where
  "QueryEscape [] = []"
| "QueryEscape (c # s) =
     (if c = CHR '' '' then CHR ''+'' # QueryEscape s
      else if shouldEscape c
      then CHR ''%'' # upperhex ! ((of_char c :: nat) div 16)
             # upperhex ! ((of_char c :: nat) mod 16) # QueryEscape s
      else c # QueryEscape s)"

subsection \<open>The command\<close>

text \<open>The flags \<open>getSolutionStatusCmd\<close> registers.\<close>

definition getSolutionStatusCmd :: flagset where
  "getSolutionStatusCmd =
     flags_String ''status-type'' []
       (flags_String ''solution-version'' []
         (flags_String ''name'' [] Map.empty))"

text \<open>
  The collaborators of the status command: the tenant of the current context (a context is
  taken to be configured) and the answer of the platform API to a read, an error or the
  decoded response.
\<close>

record 'obj solution_env =
  cfg_Tenant :: string
  http_get :: "'obj request \<Rightarrow> error + ResponseBlob"

text \<open>
  A step of the status command either returns a value or ends the process: \<open>log.Fatalf\<close>
  writes its entry and calls \<open>os.Exit(1)\<close>.
\<close>

datatype ('a, 'obj) result = Exited nat "'obj world" | Returned 'a "'obj world"

definition log_Fatalf :: "string \<Rightarrow> arg list \<Rightarrow> 'obj world \<Rightarrow> ('a, 'obj) result" where
  "log_Fatalf fmt args w = Exited 1 (w\<lparr>logged := logged w @ [Log FatalLevel fmt args]\<rparr>)"

definition api_HTTPGet ::
  "'obj solution_env \<Rightarrow> string \<Rightarrow> (string \<rightharpoonup> string) \<Rightarrow> 'obj world
    \<Rightarrow> (error + ResponseBlob) \<times> 'obj world" where
  "api_HTTPGet e path hdrs w =
     (let r = \<lparr>req_method = GET, req_url = path, req_headers = hdrs, req_body = None\<rparr>
      in (http_get e r, w\<lparr>sent := sent w @ [r]\<rparr>))"

text \<open>The zero value of \<open>StatusItem\<close>.\<close>

definition emptyData :: StatusItem where
  "emptyData =
     \<lparr>StatusData = \<lparr>InstallTime = [], InstallMessage = [], SuccessfulInstall = False,
                    SolutionName = [], SolutionVersion = []\<rparr>,
      CreatedAt = []\<rparr>"

definition getObject ::
  "'obj solution_env \<Rightarrow> string \<Rightarrow> (string \<rightharpoonup> string) \<Rightarrow> 'obj world
    \<Rightarrow> (StatusItem, 'obj) result" where
  "getObject e url headers w =
     (case api_HTTPGet e url headers w of
        (Inl err, w') \<Rightarrow> log_Fatalf ''Issue fetching install/upload object: %v'' [ErrArg err] w'
      | (Inr res, w') \<Rightarrow>
          (if length (Items res) > 0 then Returned (Items res ! 0) w'
           else Returned emptyData w'))"

definition getSolutionReleaseUrl :: string where
  "getSolutionReleaseUrl = ''objstore/v1beta/objects/extensibility:solutionRelease%s''"

definition getSolutionInstallUrl :: string where
  "getSolutionInstallUrl = ''objstore/v1beta/objects/extensibility:solutionInstall%s''"

text \<open>The closure \<open>appendValue\<close>, on the pair of slices it extends.\<close>

definition appendValue ::
  "string \<Rightarrow> string \<Rightarrow> string list \<times> string list \<Rightarrow> string list \<times> string list" where
  "appendValue header v row = (fst row @ [header], snd row @ [v])"

text \<open>
  The headers and values \<open>fetchValuesAndPrint\<close> assembles from the two items it fetched,
  statement by statement.
\<close>

definition statusRow :: "string \<Rightarrow> StatusItem \<Rightarrow> StatusItem \<Rightarrow> string list \<times> string list" where
  "statusRow operation uploadStatusItem installStatusItem =
     (let installStatusData = StatusData installStatusItem;
          uploadStatusData = StatusData uploadStatusItem;
          uploadStatusTimestamp = CreatedAt uploadStatusItem;
          row0 = ([''Solution Name''], [SolutionName uploadStatusData])
      in if operation = ''upload'' then
           (let row1 = appendValue ''Solution Upload Version'' (SolutionVersion uploadStatusData) row0;
                row2 = appendValue ''Upload Timestamp'' uploadStatusTimestamp row1
            in row2)
         else if operation = ''install'' then
           (let row1 = appendValue ''Solution Install Version'' (SolutionVersion installStatusData) row0;
                row2 = appendValue ''Solution Install Successful?''
                         (Sprintf_v_bool (SuccessfulInstall installStatusData)) row1;
                row3 = appendValue ''Solution Install Time'' (InstallTime installStatusData) row2;
                row4 = appendValue ''Solution Install Message'' (InstallMessage installStatusData) row3
            in row4)
         else
           (let row1 = appendValue ''Solution Upload Version'' (SolutionVersion uploadStatusData) row0;
                row2 = appendValue ''Upload Timestamp'' uploadStatusTimestamp row1;
                row3 = appendValue ''Solution Install Version'' (SolutionVersion installStatusData) row2;
                row4 = appendValue ''Solution Install Successful?''
                         (Sprintf_v_bool (SuccessfulInstall installStatusData)) row3;
                row5 = appendValue ''Solution Install Time'' (InstallTime installStatusData) row4;
                row6 = appendValue ''Solution Install Message'' (InstallMessage installStatusData) row5
            in row6))"

definition PrintCmdOutputCustom :: "StatusData \<Rightarrow> Table \<Rightarrow> 'obj world \<Rightarrow> 'obj world" where
  "PrintCmdOutputCustom v t w = w\<lparr>printed := printed w @ [(v, t)]\<rparr>"

definition fetchValuesAndPrint ::
  "'obj solution_env \<Rightarrow> string \<Rightarrow> string \<Rightarrow> (string \<rightharpoonup> string) \<Rightarrow> 'obj world
    \<Rightarrow> (unit, 'obj) result" where
  "fetchValuesAndPrint e operation query requestHeaders w =
     (case getObject e (Sprintf getSolutionReleaseUrl [query]) requestHeaders w of
        Exited code w1 \<Rightarrow> Exited code w1
      | Returned uploadStatusItem w1 \<Rightarrow>
          (case getObject e (Sprintf getSolutionInstallUrl [query]) requestHeaders w1 of
             Exited code w2 \<Rightarrow> Exited code w2
           | Returned installStatusItem w2 \<Rightarrow>
               (let row = statusRow operation uploadStatusItem installStatusItem
                in Returned ()
                     (PrintCmdOutputCustom (StatusData installStatusItem)
                        \<lparr>Headers = fst row, Lines = [snd row], Detail = True\<rparr> w2))))"

text \<open>The two strings \<open>getSolutionStatus\<close> builds before it fetches.\<close>

definition filterQuery :: "string \<Rightarrow> string \<Rightarrow> string" where
  "filterQuery solutionName solutionVersion =
     (if solutionVersion \<noteq> []
      then Sprintf ''data.solutionName eq \"%s\" and data.solutionVersion eq \"%s\"''
             [solutionName, solutionVersion]
      else Sprintf ''data.solutionName eq \"%s\"'' [solutionName])"

definition statusQuery :: "string \<Rightarrow> string" where
  "statusQuery flt = Sprintf ''?order=%s&filter=%s&max=1'' [QueryEscape ''desc'', QueryEscape flt]"

text \<open>
  \<open>getSolutionStatus\<close> returns the error of the command (\<open>None\<close> for \<open>nil\<close>) unless the
  process has exited before.
\<close>

definition getSolutionStatus ::
  "'obj solution_env \<Rightarrow> flagset \<Rightarrow> 'obj world \<Rightarrow> (error option, 'obj) result" where
  "getSolutionStatus e cmd w =
     (let layerType = ''TENANT''
      in case GetString cmd ''name'' of
           (solutionName, Some err) \<Rightarrow>
             Returned (Some (Err (''error trying to get \"name\" flag value: '' @ Error_text err))) w
         | (solutionName, None) \<Rightarrow>
             (let headers = [''layer-type'' \<mapsto> layerType, ''layer-id'' \<mapsto> cfg_Tenant e];
                  solutionVersion = fst (GetString cmd ''solution-version'');
                  statusTypeToFetch = fst (GetString cmd ''status-type'');
                  query = statusQuery (filterQuery solutionName solutionVersion)
              in case fetchValuesAndPrint e statusTypeToFetch query headers w of
                   Exited code w' \<Rightarrow> Exited code w'
                 | Returned u w' \<Rightarrow> Returned None w'))"

fun world_of :: "('a, 'obj) result \<Rightarrow> 'obj world" where
  "world_of (Exited code w) = w"
| "world_of (Returned x w) = w"

text \<open>
  For stating what the command sends: the read of one status resource (\<open>solutionRelease\<close>
  or \<open>solutionInstall\<close>) that belongs to the flags \<open>name\<close> and \<open>solution-version\<close>, under the
  tenant's layer headers. The status type does not occur in it.
\<close>

definition status_request :: "'obj solution_env \<Rightarrow> flagset \<Rightarrow> string \<Rightarrow> 'obj request" where
  "status_request e cmd resource =
     \<lparr>req_method = GET,
      req_url = ''objstore/v1beta/objects/extensibility:'' @ resource
                  @ statusQuery (filterQuery (fst (GetString cmd ''name''))
                                   (fst (GetString cmd ''solution-version''))),
      req_headers = [''layer-type'' \<mapsto> ''TENANT'', ''layer-id'' \<mapsto> cfg_Tenant e],
      req_body = None\<rparr>"

section \<open>Sample invocations\<close>

text \<open>
  A world in which nothing has happened yet, and a small installation: two object files, one
  that decodes and one that is cut short; a layer id that is derived for the \<open>TENANT\<close> layer of
  tenant \<open>acme\<close> and for no other layer type; an API that accepts every write. The decoded
  object is a list of members with string values.
\<close>

definition world0 :: "'obj world" where
  "world0 = \<lparr>sent = [], logged = [], printed = []\<rparr>"

definition sample_env :: "(string \<times> string) list objstore_env" where
  "sample_env =
     \<lparr>os_Open = [''obj.json'' \<mapsto> ''{\"kind\":\"pod\"}'', ''bad.json'' \<mapsto> ''{\"kind\":''],
      json_Unmarshal =
        (\<lambda>bytes. if bytes = ''{\"kind\":\"pod\"}'' then Inr [(''kind'', ''pod'')]
                 else Inl (Err ''unexpected end of JSON input'')),
      getCorrectLayerID = (\<lambda>layerType objType. if layerType = ''TENANT'' then ''acme'' else []),
      transport = (\<lambda>r. None)\<rparr>"

text \<open>
  The same installation with the decoder of the Go library, and three more files: one holds
  the JSON value \<open>null\<close>, one a list, one an empty object. \<open>sample_json\<close> is the JSON grammar
  on the texts of these files; every other text is taken to be cut short.
\<close>

definition sample_json :: "string \<Rightarrow> error + json" where
  "sample_json bytes =
     (if bytes = ''null'' then Inr JNull
      else if bytes = ''[1]'' then Inr (JArray [JNumber ''1''])
      else if bytes = ''{}'' then Inr (JObject [])
      else Inl (Err ''unexpected end of JSON input''))"

definition sample_go_env :: "(string \<rightharpoonup> json) option objstore_env" where
  "sample_go_env =
     \<lparr>os_Open = [''null.json'' \<mapsto> ''null'', ''list.json'' \<mapsto> ''[1]'', ''empty.json'' \<mapsto> ''{}'',
                 ''bad.json'' \<mapsto> ''{\"kind\":''],
      json_Unmarshal = Unmarshal_into_map sample_json,
      getCorrectLayerID = (\<lambda>layerType objType. if layerType = ''TENANT'' then ''acme'' else []),
      transport = (\<lambda>r. None)\<rparr>"

text \<open>\<open>create --type k8s:resource --object-file F --layer-type L\<close>\<close>

definition sample_create :: "string \<Rightarrow> string \<Rightarrow> flagset" where
  "sample_create file layerType =
     flags_Set ''layer-type'' layerType
       (flags_Set ''object-file'' file
         (flags_Set ''type'' ''k8s:resource'' getCreateObjectCmd))"

text \<open>\<open>create-patch --type k8s:resource --parent-object-id p1 --object-file F --target-layer-type L\<close>\<close>

definition sample_create_patch :: "string \<Rightarrow> string \<Rightarrow> flagset" where
  "sample_create_patch file layerType =
     flags_Set ''target-layer-type'' layerType
       (flags_Set ''object-file'' file
         (flags_Set ''parent-object-id'' ''p1''
           (flags_Set ''type'' ''k8s:resource'' getCreatePatchObjectCmd)))"

text \<open>
  A status service of tenant \<open>acme\<close> that answers the release resource with \<open>rel\<close> and the
  install resource with \<open>inst\<close>.
\<close>

definition sample_status_env ::
  "error + ResponseBlob \<Rightarrow> error + ResponseBlob \<Rightarrow> 'obj solution_env" where
  "sample_status_env rel inst =
     \<lparr>cfg_Tenant = ''acme'',
      http_get =
        (\<lambda>r. if take 53 (req_url r) = ''objstore/v1beta/objects/extensibility:solutionRelease''
             then rel else inst)\<rparr>"

definition sample_release :: StatusItem where
  "sample_release =
     \<lparr>StatusData = \<lparr>InstallTime = [], InstallMessage = [], SuccessfulInstall = False,
                    SolutionName = ''mySolution'', SolutionVersion = ''1.2.0''\<rparr>,
      CreatedAt = ''2023-01-01T00:00:00Z''\<rparr>"

definition sample_install :: StatusItem where
  "sample_install =
     \<lparr>StatusData = \<lparr>InstallTime = ''2023-01-02T00:00:00Z'', InstallMessage = ''ok'',
                    SuccessfulInstall = True,
                    SolutionName = ''otherName'', SolutionVersion = ''1.1.0''\<rparr>,
      CreatedAt = ''2023-01-02T00:00:01Z''\<rparr>"

text \<open>\<open>status --name mySolution --status-type T\<close>\<close>

definition sample_status :: "string \<Rightarrow> flagset" where
  "sample_status statusType =
     flags_Set ''status-type'' statusType
       (flags_Set ''name'' ''mySolution'' getSolutionStatusCmd)"

section \<open>What the write commands send\<close>

lemma GetString_registered [simp]: "cmd name = Some f \<Longrightarrow> GetString cmd name = (flag_value f, None)"
  by (simp add: GetString_def)

lemma Changed_GetString: "Changed cmd name \<Longrightarrow> snd (GetString cmd name) = None"
  by (simp add: Changed_def GetString_def split: option.splits)

lemma insertObject_post_sent:
  "sent (insertObject_post e objType layerType layerID objectStruct w) =
     sent w @ [\<lparr>req_method = POST, req_url = ''objstore/v1beta/objects/'' @ objType,
                req_headers = [''layer-type'' \<mapsto> layerType, ''layer-id'' \<mapsto> layerID],
                req_body = Some objectStruct\<rparr>]"
  by (simp add: insertObject_post_def api_JSONPost_def getObjStoreObjectUrl_def Let_def
      log_Errorf_def log_Infof_def split: option.splits)

lemma insertObject_sent:
  assumes "os_Open e (fst (GetString cmd ''object-file'')) = Some bytes"
    and "json_Unmarshal e bytes = Inr obj"
  shows "sent (insertObject e cmd w) =
     (let layerType = fst (GetString cmd ''layer-type'');
          objType = fst (GetString cmd ''type'');
          derived = getCorrectLayerID e layerType objType
      in if derived = [] \<and> \<not> Changed cmd ''layer-id'' then sent w
         else sent w @ [\<lparr>req_method = POST, req_url = ''objstore/v1beta/objects/'' @ objType,
                req_headers = [''layer-type'' \<mapsto> layerType,
                  ''layer-id'' \<mapsto> (if derived = [] then fst (GetString cmd ''layer-id'') else derived)],
                req_body = Some obj\<rparr>])"
proof (cases "Changed cmd ''layer-id''")
  case True
  then have "snd (GetString cmd ''layer-id'') = None" by (rule Changed_GetString)
  then obtain v where "GetString cmd ''layer-id'' = (v, None)" by (cases "GetString cmd ''layer-id''") simp
  with assms True show ?thesis
    by (simp add: insertObject_def Let_def insertObject_post_sent)
next
  case False
  with assms show ?thesis
    by (simp add: insertObject_def Let_def insertObject_post_sent log_Error_def)
qed

lemma insertPatchObject_sent:
  assumes "os_Open e (fst (GetString cmd ''object-file'')) = Some bytes"
    and "json_Unmarshal e bytes = Inr obj"
  shows "sent (insertPatchObject e cmd w) =
     sent w @ [\<lparr>req_method = PATCH,
         req_url = ''objstore/v1beta/objects/'' @ fst (GetString cmd ''type'') @ ''/''
                     @ fst (GetString cmd ''parent-object-id''),
         req_headers = [''layer-type'' \<mapsto> fst (GetString cmd ''target-layer-type''),
           ''layer-id'' \<mapsto> getCorrectLayerID e (fst (GetString cmd ''target-layer-type''))
                                (fst (GetString cmd ''type''))],
         req_body = Some obj\<rparr>]"
  using assms
  by (simp add: insertPatchObject_def api_JSONPatch_def getObjStoreObjectUrl_def Let_def
      log_Errorf_def log_Infof_def split: option.splits)

lemma insertObject_no_file:
  assumes "os_Open e (fst (GetString cmd ''object-file'')) = None"
  shows "insertObject e cmd w =
     w\<lparr>logged := logged w @ [Log ErrorLevel ''Can't find the object definition file named %s''
          [Str (fst (GetString cmd ''object-file''))]]\<rparr>"
  using assms by (simp add: insertObject_def Let_def log_Errorf_def)

lemma insertObject_bad_json:
  assumes "os_Open e (fst (GetString cmd ''object-file'')) = Some bytes"
    and "json_Unmarshal e bytes = Inl err"
  shows "\<exists>fmt. insertObject e cmd w = w\<lparr>logged := logged w @ [Log ErrorLevel fmt []]\<rparr>"
  using assms by (simp add: insertObject_def Let_def log_Errorf_def) (rule exI, rule refl)

lemma insertPatchObject_no_file:
  assumes "os_Open e (fst (GetString cmd ''object-file'')) = None"
  shows "insertPatchObject e cmd w =
     w\<lparr>logged := logged w @ [Log ErrorLevel ''Can't find the object definition file named %s''
          [Str (fst (GetString cmd ''object-file''))]]\<rparr>"
  using assms by (simp add: insertPatchObject_def Let_def log_Errorf_def)

lemma insertPatchObject_bad_json:
  assumes "os_Open e (fst (GetString cmd ''object-file'')) = Some bytes"
    and "json_Unmarshal e bytes = Inl err"
  shows "\<exists>fmt. insertPatchObject e cmd w = w\<lparr>logged := logged w @ [Log ErrorLevel fmt []]\<rparr>"
  using assms by (simp add: insertPatchObject_def Let_def log_Errorf_def) (rule exI, rule refl)

section \<open>What the status command does\<close>

lemma getObject_answered:
  assumes "http_get e \<lparr>req_method = GET, req_url = url, req_headers = hdrs, req_body = None\<rparr> = Inr res"
  shows "getObject e url hdrs w =
     Returned (case Items res of [] \<Rightarrow> emptyData | x # xs \<Rightarrow> x)
       (w\<lparr>sent := sent w @ [\<lparr>req_method = GET, req_url = url, req_headers = hdrs, req_body = None\<rparr>]\<rparr>)"
  using assms by (cases "Items res") (simp_all add: getObject_def api_HTTPGet_def)

lemma getObject_failed:
  assumes "http_get e \<lparr>req_method = GET, req_url = url, req_headers = hdrs, req_body = None\<rparr> = Inl err"
  shows "getObject e url hdrs w =
     Exited 1
       (w\<lparr>sent := sent w @ [\<lparr>req_method = GET, req_url = url, req_headers = hdrs, req_body = None\<rparr>],
          logged := logged w @ [Log FatalLevel ''Issue fetching install/upload object: %v'' [ErrArg err]]\<rparr>)"
  using assms by (simp add: getObject_def api_HTTPGet_def log_Fatalf_def)

lemma Sprintf_release_url:
  "Sprintf getSolutionReleaseUrl [q] = ''objstore/v1beta/objects/extensibility:solutionRelease'' @ q"
  by (simp add: getSolutionReleaseUrl_def)

lemma Sprintf_install_url:
  "Sprintf getSolutionInstallUrl [q] = ''objstore/v1beta/objects/extensibility:solutionInstall'' @ q"
  by (simp add: getSolutionInstallUrl_def)

lemma statusRow_columns:
  "statusRow operation u i =
     (if operation = ''upload'' then
        ([''Solution Name'', ''Solution Upload Version'', ''Upload Timestamp''],
         [SolutionName (StatusData u), SolutionVersion (StatusData u), CreatedAt u])
      else if operation = ''install'' then
        ([''Solution Name'', ''Solution Install Version'', ''Solution Install Successful?'',
          ''Solution Install Time'', ''Solution Install Message''],
         [SolutionName (StatusData u), SolutionVersion (StatusData i),
          (if SuccessfulInstall (StatusData i) then ''true'' else ''false''),
          InstallTime (StatusData i), InstallMessage (StatusData i)])
      else
        ([''Solution Name'', ''Solution Upload Version'', ''Upload Timestamp'',
          ''Solution Install Version'', ''Solution Install Successful?'',
          ''Solution Install Time'', ''Solution Install Message''],
         [SolutionName (StatusData u), SolutionVersion (StatusData u), CreatedAt u,
          SolutionVersion (StatusData i),
          (if SuccessfulInstall (StatusData i) then ''true'' else ''false''),
          InstallTime (StatusData i), InstallMessage (StatusData i)]))"
  by (simp add: statusRow_def appendValue_def Sprintf_v_bool_def Let_def)

lemma getSolutionStatus_registered:
  assumes "cmd ''name'' = Some f"
  shows "getSolutionStatus e cmd w =
     (case fetchValuesAndPrint e (fst (GetString cmd ''status-type''))
             (statusQuery (filterQuery (fst (GetString cmd ''name''))
                (fst (GetString cmd ''solution-version''))))
             [''layer-type'' \<mapsto> ''TENANT'', ''layer-id'' \<mapsto> cfg_Tenant e] w of
        Exited code w' \<Rightarrow> Exited code w'
      | Returned u w' \<Rightarrow> Returned None w')"
  using assms by (simp add: getSolutionStatus_def Let_def)

lemma getSolutionStatus_release_failed:
  assumes "cmd ''name'' = Some f"
    and "http_get e (status_request e cmd ''solutionRelease'') = Inl err"
  shows "getSolutionStatus e cmd w =
     Exited 1 (w\<lparr>sent := sent w @ [status_request e cmd ''solutionRelease''],
                 logged := logged w @ [Log FatalLevel ''Issue fetching install/upload object: %v'' [ErrArg err]]\<rparr>)"
proof -
  have "getObject e (Sprintf getSolutionReleaseUrl
          [statusQuery (filterQuery (fst (GetString cmd ''name'')) (fst (GetString cmd ''solution-version'')))])
          [''layer-type'' \<mapsto> ''TENANT'', ''layer-id'' \<mapsto> cfg_Tenant e] w =
        Exited 1 (w\<lparr>sent := sent w @ [status_request e cmd ''solutionRelease''],
                 logged := logged w @ [Log FatalLevel ''Issue fetching install/upload object: %v'' [ErrArg err]]\<rparr>)"
    using assms(2) getObject_failed [of e _ _ err w]
    by (simp add: status_request_def Sprintf_release_url)
  then show ?thesis
    by (simp add: getSolutionStatus_registered [where cmd = cmd and f = f, OF assms(1)] fetchValuesAndPrint_def)
qed

lemma getSolutionStatus_install_failed:
  assumes "cmd ''name'' = Some f"
    and "http_get e (status_request e cmd ''solutionRelease'') = Inr ru"
    and "http_get e (status_request e cmd ''solutionInstall'') = Inl err"
  shows "getSolutionStatus e cmd w =
     Exited 1 (w\<lparr>sent := sent w @ [status_request e cmd ''solutionRelease'',
                                      status_request e cmd ''solutionInstall''],
                 logged := logged w @ [Log FatalLevel ''Issue fetching install/upload object: %v'' [ErrArg err]]\<rparr>)"
proof -
  let ?q = "statusQuery (filterQuery (fst (GetString cmd ''name'')) (fst (GetString cmd ''solution-version'')))"
  let ?h = "[''layer-type'' \<mapsto> ''TENANT'', ''layer-id'' \<mapsto> cfg_Tenant e]"
  let ?w1 = "w\<lparr>sent := sent w @ [status_request e cmd ''solutionRelease'']\<rparr>"
  have 1: "getObject e (Sprintf getSolutionReleaseUrl [?q]) ?h w =
        Returned (case Items ru of [] \<Rightarrow> emptyData | x # xs \<Rightarrow> x) ?w1"
    using assms(2) getObject_answered [of e _ _ ru w]
    by (simp add: status_request_def Sprintf_release_url)
  have 2: "getObject e (Sprintf getSolutionInstallUrl [?q]) ?h ?w1 =
        Exited 1 (w\<lparr>sent := sent w @ [status_request e cmd ''solutionRelease'',
                                      status_request e cmd ''solutionInstall''],
                 logged := logged w @ [Log FatalLevel ''Issue fetching install/upload object: %v'' [ErrArg err]]\<rparr>)"
    using assms(3) getObject_failed [of e _ _ err ?w1]
    by (simp add: status_request_def Sprintf_install_url)
  show ?thesis
    by (simp add: getSolutionStatus_registered [where cmd = cmd and f = f, OF assms(1)] fetchValuesAndPrint_def 1 2)
qed

lemma getSolutionStatus_answered:
  assumes "cmd ''name'' = Some f"
    and "http_get e (status_request e cmd ''solutionRelease'') = Inr ru"
    and "http_get e (status_request e cmd ''solutionInstall'') = Inr ri"
  shows "getSolutionStatus e cmd w =
     (let u = (case Items ru of [] \<Rightarrow> emptyData | x # xs \<Rightarrow> x);
          i = (case Items ri of [] \<Rightarrow> emptyData | x # xs \<Rightarrow> x);
          row = statusRow (fst (GetString cmd ''status-type'')) u i
      in Returned None
           (w\<lparr>sent := sent w @ [status_request e cmd ''solutionRelease'',
                                 status_request e cmd ''solutionInstall''],
              printed := printed w @
                [(StatusData i, \<lparr>Headers = fst row, Lines = [snd row], Detail = True\<rparr>)]\<rparr>))"
proof -
  let ?q = "statusQuery (filterQuery (fst (GetString cmd ''name'')) (fst (GetString cmd ''solution-version'')))"
  let ?h = "[''layer-type'' \<mapsto> ''TENANT'', ''layer-id'' \<mapsto> cfg_Tenant e]"
  let ?w1 = "w\<lparr>sent := sent w @ [status_request e cmd ''solutionRelease'']\<rparr>"
  have 1: "getObject e (Sprintf getSolutionReleaseUrl [?q]) ?h w =
        Returned (case Items ru of [] \<Rightarrow> emptyData | x # xs \<Rightarrow> x) ?w1"
    using assms(2) getObject_answered [of e _ _ ru w]
    by (simp add: status_request_def Sprintf_release_url)
  have 2: "getObject e (Sprintf getSolutionInstallUrl [?q]) ?h ?w1 =
        Returned (case Items ri of [] \<Rightarrow> emptyData | x # xs \<Rightarrow> x)
          (w\<lparr>sent := sent w @ [status_request e cmd ''solutionRelease'',
                                      status_request e cmd ''solutionInstall'']\<rparr>)"
    using assms(3) getObject_answered [of e _ _ ri ?w1]
    by (simp add: status_request_def Sprintf_install_url)
  show ?thesis
    by (simp add: getSolutionStatus_registered [where cmd = cmd and f = f, OF assms(1)] fetchValuesAndPrint_def 1 2
        PrintCmdOutputCustom_def Let_def)
qed

section \<open>The sample invocations, evaluated\<close>

lemma sample_create_flags:
  "GetString (sample_create file layerType) ''type'' = (''k8s:resource'', None)"
  "GetString (sample_create file layerType) ''object-file'' = (file, None)"
  "GetString (sample_create file layerType) ''layer-type'' = (layerType, None)"
  "GetString (sample_create file layerType) ''layer-id'' = ([], None)"
  "Changed (sample_create file layerType) ''layer-id'' = False"
  by (simp_all add: sample_create_def getCreateObjectCmd_def flags_Set_def flags_String_def
      GetString_def Changed_def)

lemma sample_create_patch_flags:
  "GetString (sample_create_patch file layerType) ''type'' = (''k8s:resource'', None)"
  "GetString (sample_create_patch file layerType) ''parent-object-id'' = (''p1'', None)"
  "GetString (sample_create_patch file layerType) ''object-file'' = (file, None)"
  "GetString (sample_create_patch file layerType) ''target-layer-type'' = (layerType, None)"
  by (simp_all add: sample_create_patch_def getCreatePatchObjectCmd_def flags_Set_def
      flags_String_def GetString_def)

lemma sample_status_flags:
  "sample_status statusType ''name'' = Some \<lparr>flag_value = ''mySolution'', flag_changed = True\<rparr>"
  "GetString (sample_status statusType) ''name'' = (''mySolution'', None)"
  "GetString (sample_status statusType) ''solution-version'' = ([], None)"
  "GetString (sample_status statusType) ''status-type'' = (statusType, None)"
  by (simp_all add: sample_status_def getSolutionStatusCmd_def flags_Set_def
      flags_String_def GetString_def)

lemma sample_status_request:
  "status_request (sample_status_env rel inst) (sample_status statusType) resource =
     \<lparr>req_method = GET,
      req_url = ''objstore/v1beta/objects/extensibility:'' @ resource
                  @ ''?order=desc&filter=data.solutionName+eq+%22mySolution%22&max=1'',
      req_headers = [''layer-type'' \<mapsto> ''TENANT'', ''layer-id'' \<mapsto> ''acme''],
      req_body = None\<rparr>"
  by (simp add: status_request_def sample_status_flags sample_status_env_def statusQuery_def
      filterQuery_def shouldEscape_def upperhex_def)

lemma sample_status_answers:
  "http_get (sample_status_env rel inst) (status_request (sample_status_env rel inst) (sample_status statusType) ''solutionRelease'') = rel"
  "http_get (sample_status_env rel inst) (status_request (sample_status_env rel inst) (sample_status statusType) ''solutionInstall'') = inst"
  by (simp_all add: sample_status_request) (simp_all add: sample_status_env_def)

section \<open>Properties of create and create-patch\<close>

text \<open>
  The guard of \<open>insertObject\<close>: with no derived layer id and no \<open>--layer-id\<close> on the command
  line it logs an error and hands nothing to the API.
\<close>

lemma insertObject_unresolved_aborts:
  assumes "os_Open e (fst (GetString cmd ''object-file'')) = Some bytes"
    and "json_Unmarshal e bytes = Inr obj"
    and "getCorrectLayerID e (fst (GetString cmd ''layer-type'')) (fst (GetString cmd ''type'')) = []"
    and "\<not> Changed cmd ''layer-id''"
  shows "insertObject e cmd w =
     w\<lparr>logged := logged w @ [Log ErrorLevel ''Unable to set layer-id flag from given context. Please specify a unique layer-id value with the --layer-id flag'' []]\<rparr>"
  using assms by (simp add: insertObject_def Let_def log_Error_def)

text \<open>
  \<open>insertPatchObject\<close> has no such guard: whenever no layer id is derived for the target layer
  type, the PATCH goes out with an empty \<open>layer-id\<close> header.
\<close>

lemma insertPatchObject_unresolved_sends:
  assumes "os_Open e (fst (GetString cmd ''object-file'')) = Some bytes"
    and "json_Unmarshal e bytes = Inr obj"
    and "getCorrectLayerID e (fst (GetString cmd ''target-layer-type'')) (fst (GetString cmd ''type'')) = []"
  shows "\<exists>r. sent (insertPatchObject e cmd w) = sent w @ [r]
     \<and> req_method r = PATCH \<and> req_headers r ''layer-id'' = Some []"
  using assms by (simp add: insertPatchObject_sent [OF assms(1,2)])

text \<open>
  In \<open>insertObject\<close> the guard looks at whether the flag was set, not at its value:
  \<open>create ... --layer-type CUSTOM --layer-id ""\<close> passes it and posts with an empty
  \<open>layer-id\<close> header.
\<close>

lemma create_sends_supplied_empty_layer_id:
  "sent (insertObject sample_env (flags_Set ''layer-id'' [] (sample_create ''obj.json'' ''CUSTOM'')) world0) =
     [\<lparr>req_method = POST,
       req_url = ''objstore/v1beta/objects/k8s:resource'',
       req_headers = [''layer-type'' \<mapsto> ''CUSTOM'', ''layer-id'' \<mapsto> []],
       req_body = Some [(''kind'', ''pod'')]\<rparr>]"
  by (simp add: insertObject_def sample_create_def getCreateObjectCmd_def flags_Set_def flags_String_def
      GetString_def Changed_def sample_env_def world0_def insertObject_post_sent Let_def)

text \<open>
  C1. The claim: neither create nor create-patch ever hands a request with an empty
  \<open>layer-id\<close> header to the API; when the layer id is neither derived from the layer type nor
  supplied, the command fails before any request. The code of create-patch at
  \<open>create-patch --type k8s:resource --parent-object-id p1 --object-file obj.json
  --target-layer-type CUSTOM\<close>, where \<open>obj.json\<close> decodes and no layer id is derived for
  \<open>CUSTOM\<close>: the PATCH is handed to the API with \<open>layer-id\<close> empty, and success is logged.
\<close>

theorem create_patch_sends_empty_layer_id:
  "insertPatchObject sample_env (sample_create_patch ''obj.json'' ''CUSTOM'') world0 =
     \<lparr>sent = [\<lparr>req_method = PATCH,
               req_url = ''objstore/v1beta/objects/k8s:resource/p1'',
               req_headers = [''layer-type'' \<mapsto> ''CUSTOM'', ''layer-id'' \<mapsto> []],
               req_body = Some [(''kind'', ''pod'')]\<rparr>],
      logged = [Log InfoLevel ''Successfully created patched %s object at the %s layer''
                  [Str ''k8s:resource'', Str ''CUSTOM'']],
      printed = []\<rparr>"
  by (simp add: insertPatchObject_def sample_create_patch_flags sample_env_def world0_def
      api_JSONPatch_def getObjStoreObjectUrl_def log_Infof_def Let_def)

text \<open>
  Whatever the decoder is: when the object file does not open, or the decoder returns an
  error for its bytes, each command logs one entry at error level and ends; the world is
  otherwise as it was, so nothing has been handed to the API.
\<close>

lemma decode_error_aborts:
  assumes "os_Open e (fst (GetString cmd ''object-file'')) = None
     \<or> (\<exists>bytes err. os_Open e (fst (GetString cmd ''object-file'')) = Some bytes
           \<and> json_Unmarshal e bytes = Inl err)"
  shows "(\<exists>fmt args. insertObject e cmd w = w\<lparr>logged := logged w @ [Log ErrorLevel fmt args]\<rparr>)
     \<and> sent (insertObject e cmd w) = sent w
     \<and> (\<exists>fmt args. insertPatchObject e cmd w = w\<lparr>logged := logged w @ [Log ErrorLevel fmt args]\<rparr>)
     \<and> sent (insertPatchObject e cmd w) = sent w"
proof -
  from assms obtain f1 a1 f2 a2 where
    1: "insertObject e cmd w = w\<lparr>logged := logged w @ [Log ErrorLevel f1 a1]\<rparr>" and
    2: "insertPatchObject e cmd w = w\<lparr>logged := logged w @ [Log ErrorLevel f2 a2]\<rparr>"
  proof (elim disjE exE conjE)
    assume a: "os_Open e (fst (GetString cmd ''object-file'')) = None"
    assume r: "\<And>f1 a1 f2 a2.
      insertObject e cmd w = w\<lparr>logged := logged w @ [Log ErrorLevel f1 a1]\<rparr> \<Longrightarrow>
      insertPatchObject e cmd w = w\<lparr>logged := logged w @ [Log ErrorLevel f2 a2]\<rparr> \<Longrightarrow> thesis"
    show thesis
      by (rule r [OF insertObject_no_file [OF a] insertPatchObject_no_file [OF a]])
  next
    fix bytes err
    assume a: "os_Open e (fst (GetString cmd ''object-file'')) = Some bytes"
      and b: "json_Unmarshal e bytes = Inl err"
    assume r: "\<And>f1 a1 f2 a2.
      insertObject e cmd w = w\<lparr>logged := logged w @ [Log ErrorLevel f1 a1]\<rparr> \<Longrightarrow>
      insertPatchObject e cmd w = w\<lparr>logged := logged w @ [Log ErrorLevel f2 a2]\<rparr> \<Longrightarrow> thesis"
    from insertObject_bad_json [OF a b, of w] obtain f1 where
      1: "insertObject e cmd w = w\<lparr>logged := logged w @ [Log ErrorLevel f1 []]\<rparr>" ..
    from insertPatchObject_bad_json [OF a b, of w] obtain f2 where
      2: "insertPatchObject e cmd w = w\<lparr>logged := logged w @ [Log ErrorLevel f2 []]\<rparr>" ..
    show thesis by (rule r [OF 1 2])
  qed
  have "\<exists>fmt args. insertObject e cmd w = w\<lparr>logged := logged w @ [Log ErrorLevel fmt args]\<rparr>"
    using 1 by blast
  moreover have "sent (insertObject e cmd w) = sent w"
    by (simp add: 1)
  moreover have "\<exists>fmt args. insertPatchObject e cmd w = w\<lparr>logged := logged w @ [Log ErrorLevel fmt args]\<rparr>"
    using 2 by blast
  moreover have "sent (insertPatchObject e cmd w) = sent w"
    by (simp add: 2)
  ultimately show ?thesis by blast
qed

text \<open>When the decoder of the Go library returns an error for a map target.\<close>

lemma Unmarshal_into_map_error:
  "(\<exists>err. Unmarshal_into_map parse bytes = Inl err) =
     (case parse bytes of Inl err \<Rightarrow> True | Inr v \<Rightarrow> v \<noteq> JNull \<and> \<not> is_object v)"
proof (cases "parse bytes")
  case (Inl err)
  then show ?thesis by (simp add: Unmarshal_into_map_def)
next
  case (Inr v)
  then show ?thesis by (cases v) (simp_all add: Unmarshal_into_map_def)
qed

text \<open>
  The claim C2 says that contents which do not parse as a JSON object make the command stop
  before any request. The JSON value \<open>null\<close> is not an object, and \<open>json.Unmarshal\<close> returns no
  error for it: \<open>create --type k8s:resource --object-file null.json --layer-type TENANT\<close>,
  where \<open>null.json\<close> holds \<open>null\<close>, posts a nil map and logs success, and create-patch on the
  same file sends its PATCH.
\<close>

theorem null_file_is_sent_counterexample:
  "os_Open sample_go_env ''null.json'' = Some ''null''
   \<and> sample_json ''null'' = Inr JNull
   \<and> is_object JNull = False
   \<and> insertObject sample_go_env (sample_create ''null.json'' ''TENANT'') world0 =
       \<lparr>sent = [\<lparr>req_method = POST,
                 req_url = ''objstore/v1beta/objects/k8s:resource'',
                 req_headers = [''layer-type'' \<mapsto> ''TENANT'', ''layer-id'' \<mapsto> ''acme''],
                 req_body = Some None\<rparr>],
        logged = [Log InfoLevel ''Successfully created %s object'' [Str ''k8s:resource'']],
        printed = []\<rparr>
   \<and> sent (insertPatchObject sample_go_env (sample_create_patch ''null.json'' ''TENANT'') world0) =
       [\<lparr>req_method = PATCH,
         req_url = ''objstore/v1beta/objects/k8s:resource/p1'',
         req_headers = [''layer-type'' \<mapsto> ''TENANT'', ''layer-id'' \<mapsto> ''acme''],
         req_body = Some None\<rparr>]"
  by (simp add: insertObject_def insertPatchObject_def insertObject_post_def api_JSONPost_def
      api_JSONPatch_def getObjStoreObjectUrl_def log_Infof_def Let_def
      sample_create_flags sample_create_patch_flags sample_go_env_def sample_json_def
      Unmarshal_into_map_def world0_def)

text \<open>
  C2, as the code has it. With the decoder of the Go library, for create and for create-patch
  alike: when the object file does not open, or its contents are no JSON text, or they are a
  JSON value that is neither an object nor \<open>null\<close>, the command logs one entry at error level
  and ends; the world is otherwise as it was, so nothing has been handed to the API.
\<close>

theorem write_aborts_before_request:
  assumes "json_Unmarshal e = Unmarshal_into_map parse"
    and "os_Open e (fst (GetString cmd ''object-file'')) = None
     \<or> (\<exists>bytes. os_Open e (fst (GetString cmd ''object-file'')) = Some bytes
           \<and> (case parse bytes of Inl err \<Rightarrow> True | Inr v \<Rightarrow> v \<noteq> JNull \<and> \<not> is_object v))"
  shows "(\<exists>fmt args. insertObject e cmd w = w\<lparr>logged := logged w @ [Log ErrorLevel fmt args]\<rparr>)
     \<and> sent (insertObject e cmd w) = sent w
     \<and> (\<exists>fmt args. insertPatchObject e cmd w = w\<lparr>logged := logged w @ [Log ErrorLevel fmt args]\<rparr>)
     \<and> sent (insertPatchObject e cmd w) = sent w"
proof (rule decode_error_aborts)
  from assms(2)
  show "os_Open e (fst (GetString cmd ''object-file'')) = None
     \<or> (\<exists>bytes err. os_Open e (fst (GetString cmd ''object-file'')) = Some bytes
           \<and> json_Unmarshal e bytes = Inl err)"
  proof (elim disjE exE conjE)
    assume "os_Open e (fst (GetString cmd ''object-file'')) = None"
    then show ?thesis by simp
  next
    fix bytes
    assume opened: "os_Open e (fst (GetString cmd ''object-file'')) = Some bytes"
      and "case parse bytes of Inl err \<Rightarrow> True | Inr v \<Rightarrow> v \<noteq> JNull \<and> \<not> is_object v"
    then have "\<exists>err. Unmarshal_into_map parse bytes = Inl err"
      by (simp add: Unmarshal_into_map_error)
    with opened assms(1) show ?thesis by auto
  qed
qed

text \<open>
  A create whose file holds a list, a create-patch whose file is cut short, and a create
  whose file does not exist.
\<close>

theorem write_aborts_before_request_witness:
  "sent (insertObject sample_go_env (sample_create ''list.json'' ''TENANT'') world0) = []
   \<and> sent (insertPatchObject sample_go_env (sample_create_patch ''bad.json'' ''TENANT'') world0) = []
   \<and> sent (insertObject sample_go_env (sample_create ''missing.json'' ''TENANT'') world0) = []"
  using write_aborts_before_request [of sample_go_env sample_json
      "sample_create ''list.json'' ''TENANT''" world0]
    write_aborts_before_request [of sample_go_env sample_json
      "sample_create_patch ''bad.json'' ''TENANT''" world0]
    write_aborts_before_request [of sample_go_env sample_json
      "sample_create ''missing.json'' ''TENANT''" world0]
  by (simp add: sample_create_flags sample_create_patch_flags sample_go_env_def sample_json_def world0_def)

text \<open>
  C3. For create, when the file opens and decodes and the derived layer id is not empty, the
  one request posted carries the derived id in its \<open>layer-id\<close> header, whatever the
  \<open>layer-id\<close> flag is: unregistered, left at its default, or set to any value.
\<close>

theorem create_derived_layer_id_wins:
  assumes "os_Open e (fst (GetString cmd ''object-file'')) = Some bytes"
    and "json_Unmarshal e bytes = Inr obj"
    and "getCorrectLayerID e (fst (GetString cmd ''layer-type'')) (fst (GetString cmd ''type'')) \<noteq> []"
  shows "sent (insertObject e (cmd(''layer-id'' := supplied)) w) =
     sent w @ [\<lparr>req_method = POST,
                req_url = ''objstore/v1beta/objects/'' @ fst (GetString cmd ''type''),
                req_headers = [''layer-type'' \<mapsto> fst (GetString cmd ''layer-type''),
                  ''layer-id'' \<mapsto> getCorrectLayerID e (fst (GetString cmd ''layer-type''))
                                       (fst (GetString cmd ''type''))],
                req_body = Some obj\<rparr>]"
proof -
  let ?cmd = "cmd(''layer-id'' := supplied)"
  have same: "GetString ?cmd ''object-file'' = GetString cmd ''object-file''"
    "GetString ?cmd ''layer-type'' = GetString cmd ''layer-type''"
    "GetString ?cmd ''type'' = GetString cmd ''type''"
    by (simp_all add: GetString_def)
  from assms have "os_Open e (fst (GetString ?cmd ''object-file'')) = Some bytes"
    by (simp add: same)
  from insertObject_sent [OF this assms(2), of w] assms(3) show ?thesis
    by (simp add: same Let_def)
qed

text \<open>
  \<open>create ... --layer-type TENANT --layer-id elsewhere\<close> for tenant \<open>acme\<close> posts to layer
  \<open>acme\<close>.
\<close>

theorem create_derived_layer_id_wins_witness:
  "sent (insertObject sample_env
      ((sample_create ''obj.json'' ''TENANT'')
         (''layer-id'' := Some \<lparr>flag_value = ''elsewhere'', flag_changed = True\<rparr>)) world0) =
     [\<lparr>req_method = POST,
       req_url = ''objstore/v1beta/objects/k8s:resource'',
       req_headers = [''layer-type'' \<mapsto> ''TENANT'', ''layer-id'' \<mapsto> ''acme''],
       req_body = Some [(''kind'', ''pod'')]\<rparr>]"
  using create_derived_layer_id_wins [of sample_env "sample_create ''obj.json'' ''TENANT''"
      "''{\"kind\":\"pod\"}''" "[(''kind'', ''pod'')]"
      "Some \<lparr>flag_value = ''elsewhere'', flag_changed = True\<rparr>" world0]
  by (simp add: sample_create_flags sample_env_def world0_def)

text \<open>
  C9. When the object file opens and decodes to \<open>obj\<close>, the body of the PATCH of create-patch
  is \<open>obj\<close>, and so is the body of the POST of create whenever create gets as far as posting
  (it does unless no layer id is derived and none is supplied). The commands hold the
  decoded object as an opaque value of any type, so nothing is checked, changed or dropped
  on the way.
\<close>

theorem write_body_is_parsed_object:
  assumes "os_Open e (fst (GetString cmd ''object-file'')) = Some bytes"
    and "json_Unmarshal e bytes = Inr obj"
  shows "(\<exists>url hdrs. sent (insertPatchObject e cmd w) =
            sent w @ [\<lparr>req_method = PATCH, req_url = url, req_headers = hdrs, req_body = Some obj\<rparr>])
     \<and> (\<exists>url hdrs. sent (insertObject e cmd w) =
            (if getCorrectLayerID e (fst (GetString cmd ''layer-type'')) (fst (GetString cmd ''type'')) = []
                \<and> \<not> Changed cmd ''layer-id''
             then sent w
             else sent w @ [\<lparr>req_method = POST, req_url = url, req_headers = hdrs, req_body = Some obj\<rparr>]))"
proof
  show "\<exists>url hdrs. sent (insertPatchObject e cmd w) =
            sent w @ [\<lparr>req_method = PATCH, req_url = url, req_headers = hdrs, req_body = Some obj\<rparr>]"
    by (intro exI) (rule insertPatchObject_sent [OF assms])
next
  show "\<exists>url hdrs. sent (insertObject e cmd w) =
            (if getCorrectLayerID e (fst (GetString cmd ''layer-type'')) (fst (GetString cmd ''type'')) = []
                \<and> \<not> Changed cmd ''layer-id''
             then sent w
             else sent w @ [\<lparr>req_method = POST, req_url = url, req_headers = hdrs, req_body = Some obj\<rparr>])"
    unfolding insertObject_sent [OF assms] Let_def
    by (intro exI) (rule refl)
qed

text \<open>Both commands on \<open>obj.json\<close>, at the \<open>TENANT\<close> layer.\<close>

theorem write_body_is_parsed_object_witness:
  "map req_body (sent (insertPatchObject sample_env (sample_create_patch ''obj.json'' ''TENANT'') world0))
     = [Some [(''kind'', ''pod'')]]
   \<and> map req_body (sent (insertObject sample_env (sample_create ''obj.json'' ''TENANT'') world0))
     = [Some [(''kind'', ''pod'')]]"
  using write_body_is_parsed_object [of sample_env "sample_create_patch ''obj.json'' ''TENANT''"
      "''{\"kind\":\"pod\"}''" "[(''kind'', ''pod'')]" world0]
    write_body_is_parsed_object [of sample_env "sample_create ''obj.json'' ''TENANT''"
      "''{\"kind\":\"pod\"}''" "[(''kind'', ''pod'')]" world0]
  by (auto simp add: sample_create_flags sample_create_patch_flags sample_env_def world0_def)

section \<open>Properties of status\<close>

text \<open>
  C4. The filter and the query are functions of the name \<open>n\<close> and the version \<open>v\<close> alone.
  The filter is \<open>data.solutionName eq "n"\<close> for an empty version and
  \<open>data.solutionName eq "n" and data.solutionVersion eq "v"\<close> otherwise; the query is
  \<open>?order=desc&filter=F&max=1\<close>, with the query-escaped filter for \<open>F\<close>.
\<close>

theorem status_query_string:
  "filterQuery n v =
     (if v = [] then ''data.solutionName eq \"'' @ n @ ''\"''
      else ''data.solutionName eq \"'' @ n @ ''\" and data.solutionVersion eq \"'' @ v @ ''\"'')
   \<and> statusQuery (filterQuery n v) = ''?order=desc&filter='' @ QueryEscape (filterQuery n v) @ ''&max=1''"
  by (simp add: filterQuery_def statusQuery_def shouldEscape_def)

text \<open>
  C5. When both reads are answered, the command prints one table with one line, chosen by the
  status type. With \<open>u\<close> the first item of the release answer and \<open>i\<close> the first item of the
  install answer (the zero item when there is none): \<open>upload\<close> gives the solution name, the
  upload version and the upload timestamp; \<open>install\<close> gives the solution name, the install
  version, the install success as \<open>true\<close> or \<open>false\<close>, the install time and the install
  message; every other status type, the empty one included, gives all seven in the order
  name, upload version, upload timestamp, install version, install success, install time,
  install message. The header texts are those of the code.
\<close>

theorem status_report_row:
  assumes "cmd ''name'' = Some f"
    and "http_get e (status_request e cmd ''solutionRelease'') = Inr ru"
    and "http_get e (status_request e cmd ''solutionInstall'') = Inr ri"
  shows "(let operation = fst (GetString cmd ''status-type'');
              u = (case Items ru of [] \<Rightarrow> emptyData | x # xs \<Rightarrow> x);
              i = (case Items ri of [] \<Rightarrow> emptyData | x # xs \<Rightarrow> x)
          in printed (world_of (getSolutionStatus e cmd w)) = printed w @
              [(StatusData i,
                if operation = ''upload'' then
                  \<lparr>Headers = [''Solution Name'', ''Solution Upload Version'', ''Upload Timestamp''],
                   Lines = [[SolutionName (StatusData u), SolutionVersion (StatusData u), CreatedAt u]],
                   Detail = True\<rparr>
                else if operation = ''install'' then
                  \<lparr>Headers = [''Solution Name'', ''Solution Install Version'',
                      ''Solution Install Successful?'', ''Solution Install Time'',
                      ''Solution Install Message''],
                   Lines = [[SolutionName (StatusData u), SolutionVersion (StatusData i),
                      (if SuccessfulInstall (StatusData i) then ''true'' else ''false''),
                      InstallTime (StatusData i), InstallMessage (StatusData i)]],
                   Detail = True\<rparr>
                else
                  \<lparr>Headers = [''Solution Name'', ''Solution Upload Version'', ''Upload Timestamp'',
                      ''Solution Install Version'', ''Solution Install Successful?'',
                      ''Solution Install Time'', ''Solution Install Message''],
                   Lines = [[SolutionName (StatusData u), SolutionVersion (StatusData u), CreatedAt u,
                      SolutionVersion (StatusData i),
                      (if SuccessfulInstall (StatusData i) then ''true'' else ''false''),
                      InstallTime (StatusData i), InstallMessage (StatusData i)]],
                   Detail = True\<rparr>)])"
  by (simp add: getSolutionStatus_answered [OF assms] statusRow_columns Let_def)

text \<open>The three shapes, on a release record and an install record.\<close>

theorem status_report_row_witness:
  "map (Headers \<circ> snd) (printed (world_of (getSolutionStatus
      (sample_status_env (Inr \<lparr>Items = [sample_release]\<rparr>) (Inr \<lparr>Items = [sample_install]\<rparr>)
         :: unit solution_env)
      (sample_status ''upload'') world0))) =
     [[''Solution Name'', ''Solution Upload Version'', ''Upload Timestamp'']]
   \<and> map (Lines \<circ> snd) (printed (world_of (getSolutionStatus
      (sample_status_env (Inr \<lparr>Items = [sample_release]\<rparr>) (Inr \<lparr>Items = [sample_install]\<rparr>)
         :: unit solution_env)
      (sample_status ''install'') world0))) =
     [[[''mySolution'', ''1.1.0'', ''true'', ''2023-01-02T00:00:00Z'', ''ok'']]]
   \<and> map (Lines \<circ> snd) (printed (world_of (getSolutionStatus
      (sample_status_env (Inr \<lparr>Items = [sample_release]\<rparr>) (Inr \<lparr>Items = [sample_install]\<rparr>)
         :: unit solution_env)
      (sample_status ''all'') world0))) =
     [[[''mySolution'', ''1.2.0'', ''2023-01-01T00:00:00Z'', ''1.1.0'', ''true'',
        ''2023-01-02T00:00:00Z'', ''ok'']]]"
  using
    status_report_row [of "sample_status ''upload''" _
      "sample_status_env (Inr \<lparr>Items = [sample_release]\<rparr>) (Inr \<lparr>Items = [sample_install]\<rparr>)"
      "\<lparr>Items = [sample_release]\<rparr>" "\<lparr>Items = [sample_install]\<rparr>" "world0 :: unit world",
      OF sample_status_flags(1) sample_status_answers]
    status_report_row [of "sample_status ''install''" _
      "sample_status_env (Inr \<lparr>Items = [sample_release]\<rparr>) (Inr \<lparr>Items = [sample_install]\<rparr>)"
      "\<lparr>Items = [sample_release]\<rparr>" "\<lparr>Items = [sample_install]\<rparr>" "world0 :: unit world",
      OF sample_status_flags(1) sample_status_answers]
    status_report_row [of "sample_status ''all''" _
      "sample_status_env (Inr \<lparr>Items = [sample_release]\<rparr>) (Inr \<lparr>Items = [sample_install]\<rparr>)"
      "\<lparr>Items = [sample_release]\<rparr>" "\<lparr>Items = [sample_install]\<rparr>" "world0 :: unit world",
      OF sample_status_flags(1) sample_status_answers]
  by (simp add: sample_status_flags sample_release_def sample_install_def world0_def)

text \<open>
  The claim C6 says that every invocation issues exactly two reads. When the read of the
  release resource fails, the process ends there: \<open>status --name mySolution --status-type
  install\<close> against a service that refuses the connection issues one read only.
\<close>

theorem status_exactly_two_gets_counterexample:
  "getSolutionStatus
      (sample_status_env (Inl (Err ''connection refused'')) (Inr \<lparr>Items = [sample_install]\<rparr>)
         :: unit solution_env)
      (sample_status ''install'') world0 =
     Exited 1
       \<lparr>sent = [\<lparr>req_method = GET,
                 req_url = ''objstore/v1beta/objects/extensibility:solutionRelease?order=desc&filter=data.solutionName+eq+%22mySolution%22&max=1'',
                 req_headers = [''layer-type'' \<mapsto> ''TENANT'', ''layer-id'' \<mapsto> ''acme''],
                 req_body = None\<rparr>],
        logged = [Log FatalLevel ''Issue fetching install/upload object: %v''
                    [ErrArg (Err ''connection refused'')]],
        printed = []\<rparr>"
  using getSolutionStatus_release_failed [where w = "world0 :: unit world"
      and cmd = "sample_status ''install''",
      OF sample_status_flags(1) sample_status_answers(1)]
  by (simp add: sample_status_request world0_def)

text \<open>
  C6, as the code has it. Whenever the \<open>name\<close> flag is registered and the read of the release
  resource is answered, the command issues exactly two reads, of \<open>solutionRelease\<close> and then
  of \<open>solutionInstall\<close>, with the same query and the same headers, whatever the status type
  and whatever the answer to the second read.
\<close>

theorem status_two_gets:
  assumes "cmd ''name'' = Some f"
    and "http_get e (status_request e cmd ''solutionRelease'') = Inr ru"
  shows "sent (world_of (getSolutionStatus e cmd w)) =
     sent w @ [status_request e cmd ''solutionRelease'', status_request e cmd ''solutionInstall'']"
proof (cases "http_get e (status_request e cmd ''solutionInstall'')")
  case (Inl err)
  show ?thesis by (simp add: getSolutionStatus_install_failed [OF assms Inl])
next
  case (Inr ri)
  show ?thesis by (simp add: getSolutionStatus_answered [OF assms Inr] Let_def)
qed

text \<open>\<open>status --name mySolution --status-type install\<close> reads both resources.\<close>

theorem status_two_gets_witness:
  "map req_url (sent (world_of (getSolutionStatus
      (sample_status_env (Inr \<lparr>Items = []\<rparr>) (Inr \<lparr>Items = [sample_install]\<rparr>)
         :: unit solution_env)
      (sample_status ''install'') world0))) =
     [''objstore/v1beta/objects/extensibility:solutionRelease?order=desc&filter=data.solutionName+eq+%22mySolution%22&max=1'',
      ''objstore/v1beta/objects/extensibility:solutionInstall?order=desc&filter=data.solutionName+eq+%22mySolution%22&max=1'']"
  using status_two_gets [where w = "world0 :: unit world" and cmd = "sample_status ''install''",
      OF sample_status_flags(1) sample_status_answers(1)]
  by (simp add: sample_status_request world0_def)

text \<open>
  C7. When the read of the release resource or the read of the install resource fails, the
  status command ends the process with exit status 1 after a log entry at fatal level, and
  prints no table.
\<close>

theorem status_transport_failure_is_fatal:
  assumes "cmd ''name'' = Some f"
    and "isl (http_get e (status_request e cmd ''solutionRelease''))
       \<or> isl (http_get e (status_request e cmd ''solutionInstall''))"
  shows "\<exists>w' err. getSolutionStatus e cmd w = Exited 1 w'
     \<and> printed w' = printed w
     \<and> logged w' = logged w @ [Log FatalLevel ''Issue fetching install/upload object: %v'' [ErrArg err]]"
proof (cases "http_get e (status_request e cmd ''solutionRelease'')")
  case (Inl err)
  let ?w' = "w\<lparr>sent := sent w @ [status_request e cmd ''solutionRelease''],
      logged := logged w @ [Log FatalLevel ''Issue fetching install/upload object: %v'' [ErrArg err]]\<rparr>"
  have "getSolutionStatus e cmd w = Exited 1 ?w'"
    by (rule getSolutionStatus_release_failed [OF assms(1) Inl])
  then have "getSolutionStatus e cmd w = Exited 1 ?w' \<and> printed ?w' = printed w
      \<and> logged ?w' = logged w @ [Log FatalLevel ''Issue fetching install/upload object: %v'' [ErrArg err]]"
    by simp
  then show ?thesis by blast
next
  case (Inr ru)
  with assms(2) obtain err where
    failed: "http_get e (status_request e cmd ''solutionInstall'') = Inl err"
    by (cases "http_get e (status_request e cmd ''solutionInstall'')") auto
  let ?w' = "w\<lparr>sent := sent w @ [status_request e cmd ''solutionRelease'',
        status_request e cmd ''solutionInstall''],
      logged := logged w @ [Log FatalLevel ''Issue fetching install/upload object: %v'' [ErrArg err]]\<rparr>"
  have "getSolutionStatus e cmd w = Exited 1 ?w'"
    by (rule getSolutionStatus_install_failed [OF assms(1) Inr failed])
  then have "getSolutionStatus e cmd w = Exited 1 ?w' \<and> printed ?w' = printed w
      \<and> logged ?w' = logged w @ [Log FatalLevel ''Issue fetching install/upload object: %v'' [ErrArg err]]"
    by simp
  then show ?thesis by blast
qed

text \<open>The release read is answered, the install read fails.\<close>

theorem status_transport_failure_is_fatal_witness:
  "(\<exists>w'. getSolutionStatus
      (sample_status_env (Inr \<lparr>Items = [sample_release]\<rparr>) (Inl (Err ''connection reset''))
         :: unit solution_env)
      (sample_status ''upload'') world0 = Exited 1 w' \<and> printed w' = [])"
  using status_transport_failure_is_fatal [where w = "world0 :: unit world"
      and e = "sample_status_env (Inr \<lparr>Items = [sample_release]\<rparr>) (Inl (Err ''connection reset''))"
      and cmd = "sample_status ''upload''",
      OF sample_status_flags(1)]
  by (auto simp add: sample_status_answers world0_def)

text \<open>
  C8. A read that is answered with no items is not an error: \<open>getObject\<close> returns to its
  caller, with the item whose fields are all empty or false; nothing is logged, and the
  process goes on.
\<close>

theorem empty_result_is_not_an_error:
  assumes "http_get e \<lparr>req_method = GET, req_url = url, req_headers = hdrs, req_body = None\<rparr> = Inr res"
    and "Items res = []"
  shows "getObject e url hdrs w =
     Returned
       \<lparr>StatusData = \<lparr>InstallTime = [], InstallMessage = [], SuccessfulInstall = False,
                      SolutionName = [], SolutionVersion = []\<rparr>,
        CreatedAt = []\<rparr>
       (w\<lparr>sent := sent w @ [\<lparr>req_method = GET, req_url = url, req_headers = hdrs, req_body = None\<rparr>]\<rparr>)"
  using assms by (simp add: getObject_def api_HTTPGet_def emptyData_def)

text \<open>A read of the install resource that finds nothing.\<close>

theorem empty_result_is_not_an_error_witness:
  "getObject (sample_status_env (Inr \<lparr>Items = []\<rparr>) (Inr \<lparr>Items = []\<rparr>) :: unit solution_env)
      ''objstore/v1beta/objects/extensibility:solutionInstall?max=1'' Map.empty world0 =
     Returned
       \<lparr>StatusData = \<lparr>InstallTime = [], InstallMessage = [], SuccessfulInstall = False,
                      SolutionName = [], SolutionVersion = []\<rparr>,
        CreatedAt = []\<rparr>
       \<lparr>sent = [\<lparr>req_method = GET,
                 req_url = ''objstore/v1beta/objects/extensibility:solutionInstall?max=1'',
                 req_headers = Map.empty, req_body = None\<rparr>],
        logged = [], printed = []\<rparr>"
  using empty_result_is_not_an_error [of
      "sample_status_env (Inr \<lparr>Items = []\<rparr>) (Inr \<lparr>Items = []\<rparr>) :: unit solution_env"
      "''objstore/v1beta/objects/extensibility:solutionInstall?max=1''" Map.empty "\<lparr>Items = []\<rparr>" world0]
  by (simp add: sample_status_env_def world0_def)

text \<open>
  C10. In the table the command prints, the first column is \<open>Solution Name\<close> and its value
  is the solution name of the first item of the release answer, for every status type; when
  the release answer has no items the value is empty, whatever the install answer holds.
\<close>

theorem solution_name_from_upload:
  assumes "cmd ''name'' = Some f"
    and "http_get e (status_request e cmd ''solutionRelease'') = Inr ru"
    and "http_get e (status_request e cmd ''solutionInstall'') = Inr ri"
  shows "\<exists>v hs vs. printed (world_of (getSolutionStatus e cmd w)) = printed w @
     [(v, \<lparr>Headers = ''Solution Name'' # hs,
           Lines = [(case Items ru of [] \<Rightarrow> [] | x # xs \<Rightarrow> SolutionName (StatusData x)) # vs],
           Detail = True\<rparr>)]"
proof -
  have "(case Items ru of [] \<Rightarrow> [] | x # xs \<Rightarrow> SolutionName (StatusData x)) =
        SolutionName (StatusData (case Items ru of [] \<Rightarrow> emptyData | x # xs \<Rightarrow> x))"
    by (simp add: emptyData_def split: list.splits)
  then show ?thesis
    by (simp add: getSolutionStatus_answered [OF assms] statusRow_columns Let_def)
qed

text \<open>
  No release record, an install record of solution \<open>otherName\<close>, status type \<open>install\<close>: the
  name printed is empty.
\<close>

theorem solution_name_from_upload_witness:
  "map (map hd \<circ> Lines \<circ> snd) (printed (world_of (getSolutionStatus
      (sample_status_env (Inr \<lparr>Items = []\<rparr>) (Inr \<lparr>Items = [sample_install]\<rparr>)
         :: unit solution_env)
      (sample_status ''install'') world0))) = [[[]]]"
  using solution_name_from_upload [where w = "world0 :: unit world"
      and e = "sample_status_env (Inr \<lparr>Items = []\<rparr>) (Inr \<lparr>Items = [sample_install]\<rparr>)"
      and cmd = "sample_status ''install''",
      OF sample_status_flags(1) sample_status_answers]
  by (auto simp add: world0_def)

end
